theory Spec2Isabelle
  imports Main
begin

section \<open>Messages and the latest user request (backend/agents.py)\<close>

text \<open>
  The conversation is a \<^verbatim>\<open>List[BaseMessage]\<close>. The program creates
  \<^verbatim>\<open>HumanMessage\<close> and \<^verbatim>\<open>AIMessage\<close> values and tests for them with
  \<^verbatim>\<open>isinstance\<close>; \<^verbatim>\<open>SystemMessage\<close> stands for the remaining subclasses of
  \<^verbatim>\<open>BaseMessage\<close>. Every message carries its text in \<^verbatim>\<open>content\<close>.
\<close>

datatype message =
    HumanMessage (content: string)
  | AIMessage (content: string)
  | SystemMessage (content: string)

text \<open>
  \<^verbatim>\<open>
  def get_current_user_message(messages):
      for message in reversed(messages):
          if isinstance(message, HumanMessage):
              return message.content
      return ""
  \<close>
  The loop is \<open>scan_reversed\<close>, run over the reversed list.
\<close>

fun scan_reversed :: "message list \<Rightarrow> string" where
  "scan_reversed [] = ''''"
| "scan_reversed (message # rest) =
     (if is_HumanMessage message then content message else scan_reversed rest)"

definition get_current_user_message :: "message list \<Rightarrow> string" where
  "get_current_user_message messages = scan_reversed (rev messages)"

section \<open>State, updates and exceptions (backend/agents.py)\<close>

text \<open>
  Python exceptions are values. \<open>BackendError\<close> is whatever the hosted model's client
  raises (network, authentication, rate limit, timeout), \<open>ValidationError\<close> is the
  rejection of a value outside the \<^verbatim>\<open>Literal\<close> of \<^verbatim>\<open>SupervisorRouterFormatter\<close>,
  \<open>GraphRecursionError\<close> is the graph runner's step limit.
\<close>

datatype exn =
    KeyError string
  | IndexError
  | ValidationError string
  | BackendError string
  | GraphRecursionError

text \<open>
  \<^verbatim>\<open>
  class AgentState(TypedDict):
      messages: List[BaseMessage]
      profile_data: str
      next: Literal["Profile Analyzer", "Job Fit Analyzer", "Content Enhancer",
                    "Career Counselor", "__end__"]
  \<close>
  At run time \<^verbatim>\<open>next\<close> is a string, absent until the supervisor has written it.
  No key is declared with a reducer (\<^verbatim>\<open>Annotated\<close> is imported and not used).
\<close>

record AgentState =
  messages :: "message list"
  profile_data :: string
  next_agent :: "string option"

text \<open>
  A node returns a dictionary holding some of the keys of the state: \<open>None\<close> is an
  absent key.
\<close>

record StateUpdate =
  messages_upd :: "message list option"
  profile_data_upd :: "string option"
  next_upd :: "string option"

text \<open>
  The graph runner writes every key present in a node's update over the state's value:
  a key declared without a reducer keeps the last value written.
\<close>

definition apply_update :: "StateUpdate \<Rightarrow> AgentState \<Rightarrow> AgentState" where
  "apply_update u state =
     \<lparr>messages = (case messages_upd u of None \<Rightarrow> messages state | Some ms \<Rightarrow> ms),
      profile_data = (case profile_data_upd u of None \<Rightarrow> profile_data state | Some p \<Rightarrow> p),
      next_agent = (case next_upd u of None \<Rightarrow> next_agent state | Some r \<Rightarrow> Some r)\<rparr>"

section \<open>The generation backend\<close>

text \<open>
  A formatted prompt is the template's system text with the values of its variables.
  The static system texts are abbreviated to their first words; nothing below depends
  on them.
\<close>

type_synonym prompt_value = "string \<times> (string \<times> string) list"

text \<open>
  The \<^verbatim>\<open>llm\<close> object is used in two ways: bound to the schema of
  \<^verbatim>\<open>SupervisorRouterFormatter\<close> it yields the value the model gives for
  \<^verbatim>\<open>next_agent\<close> (\<open>tool_call\<close>), and piped after a prompt it yields a reply message
  (\<open>invoke\<close>). Either call may raise: \<open>Inl cause\<close> is the exception
  \<open>BackendError cause\<close>. The backend has a state of its own, of type \<open>'b\<close> (a
  remote service, or a stub's script), which every call may change: a deterministic
  backend is a pair of functions of the prompt and that state.
\<close>

record 'b llm =
  tool_call :: "prompt_value \<Rightarrow> 'b \<Rightarrow> (string + string) \<times> 'b"
  invoke :: "prompt_value \<Rightarrow> 'b \<Rightarrow> (string + message) \<times> 'b"

text \<open>
  \<^verbatim>\<open>
  class SupervisorRouterFormatter(BaseModel):
      next_agent: Literal["Profile Analyzer", "Job Fit Analyzer", "Content Enhancer",
                          "Career Counselor", "__end__"] = Field(...)
  \<close>
\<close>

definition next_agent_literal :: "string list" where
  "next_agent_literal =
     [''Profile Analyzer'', ''Job Fit Analyzer'', ''Content Enhancer'',
      ''Career Counselor'', ''__end__'']"

text \<open>
  \<^verbatim>\<open>llm.with_structured_output(SupervisorRouterFormatter)\<close>: one call of the backend,
  whose value is validated against the \<^verbatim>\<open>Literal\<close>; a value outside it raises.
  Nothing in the program calls the backend a second time for the same request.
\<close>

definition with_structured_output ::
  "'b llm \<Rightarrow> prompt_value \<Rightarrow> 'b \<Rightarrow> (exn + string) \<times> 'b" where
  "with_structured_output llm p b =
     (case tool_call llm p b of
        (Inl cause, b') \<Rightarrow> (Inl (BackendError cause), b')
      | (Inr raw, b') \<Rightarrow>
          if raw \<in> set next_agent_literal then (Inr raw, b')
          else (Inl (ValidationError raw), b'))"

section \<open>The supervisor and the four role agents (backend/agents.py)\<close>

definition supervisor_prompt :: string where
  "supervisor_prompt = ''You are an intelligent routing supervisor''"

definition profile_analyzer_prompt :: string where
  "profile_analyzer_prompt = ''You are a senior LinkedIn profile optimization expert''"

definition job_fit_analyzer_prompt :: string where
  "job_fit_analyzer_prompt = ''You are a specialized Job Compatibility Analyst''"

definition content_enhancer_prompt :: string where
  "content_enhancer_prompt = ''You are an expert professional copywriter''"

definition career_counselor_prompt :: string where
  "career_counselor_prompt = ''You are a senior career development consultant''"

type_synonym 'b runnable = "AgentState \<Rightarrow> 'b \<Rightarrow> (exn + StateUpdate) \<times> 'b"

text \<open>
  \<^verbatim>\<open>
  def __call__(self, state):
      current_request = get_current_user_message(state["messages"])
      response = self.chain.invoke({"current_request": current_request})
      return {"next": response.next_agent}
  \<close>
\<close>

definition SupervisorAgent_call :: "'b llm \<Rightarrow> 'b runnable" where
  "SupervisorAgent_call llm state b =
     (let current_request = get_current_user_message (messages state) in
      case with_structured_output llm
             (supervisor_prompt, [(''current_request'', current_request)]) b of
        (Inl e, b') \<Rightarrow> (Inl e, b')
      | (Inr response, b') \<Rightarrow>
          (Inr \<lparr>messages_upd = None, profile_data_upd = None, next_upd = Some response\<rparr>,
           b'))"

text \<open>
  \<^verbatim>\<open>
  def agent_wrapper(state):
      current_request = get_current_user_message(state["messages"])
      response = (prompt | llm).invoke({"profile_data": state["profile_data"],
                                        "current_request": current_request})
      return {"messages": [response]}
  \<close>
  The four \<^verbatim>\<open>create_*\<close> functions define this wrapper over their own prompt.
\<close>

definition agent_wrapper :: "string \<Rightarrow> 'b llm \<Rightarrow> 'b runnable" where
  "agent_wrapper prompt llm state b =
     (let current_request = get_current_user_message (messages state) in
      case invoke llm
             (prompt, [(''profile_data'', profile_data state),
                       (''current_request'', current_request)]) b of
        (Inl cause, b') \<Rightarrow> (Inl (BackendError cause), b')
      | (Inr response, b') \<Rightarrow>
          (Inr \<lparr>messages_upd = Some [response], profile_data_upd = None, next_upd = None\<rparr>,
           b'))"

definition create_profile_analyzer :: "'b llm \<Rightarrow> 'b runnable" where
  "create_profile_analyzer llm = agent_wrapper profile_analyzer_prompt llm"

definition create_job_fit_analyzer :: "'b llm \<Rightarrow> 'b runnable" where
  "create_job_fit_analyzer llm = agent_wrapper job_fit_analyzer_prompt llm"

definition create_content_enhancer :: "'b llm \<Rightarrow> 'b runnable" where
  "create_content_enhancer llm = agent_wrapper content_enhancer_prompt llm"

definition create_career_counselor :: "'b llm \<Rightarrow> 'b runnable" where
  "create_career_counselor llm = agent_wrapper career_counselor_prompt llm"

section \<open>The graph (backend/graph.py)\<close>

text \<open>
  \<^verbatim>\<open>build_graph\<close> declares five nodes, the entry point, one conditional edge out of
  the supervisor and four plain edges. \<^verbatim>\<open>END\<close> is the runner's name of the end of a
  run.
\<close>

definition END :: string where
  "END = ''__end__''"

definition nodes :: "'b llm \<Rightarrow> (string \<times> 'b runnable) list" where
  "nodes llm =
     [(''supervisor'', SupervisorAgent_call llm),
      (''Profile Analyzer'', create_profile_analyzer llm),
      (''Job Fit Analyzer'', create_job_fit_analyzer llm),
      (''Content Enhancer'', create_content_enhancer llm),
      (''Career Counselor'', create_career_counselor llm)]"

definition entry_point :: string where
  "entry_point = ''supervisor''"

text \<open>
  \<^verbatim>\<open>
  workflow.add_conditional_edges("supervisor", lambda state: state["next"],
      {"Profile Analyzer": "Profile Analyzer", "Job Fit Analyzer": "Job Fit Analyzer",
       "Content Enhancer": "Content Enhancer", "Career Counselor": "Career Counselor",
       "__end__": END})
  \<close>
\<close>

definition conditional_source :: string where
  "conditional_source = ''supervisor''"

definition path :: "AgentState \<Rightarrow> exn + string" where
  "path state = (case next_agent state of None \<Rightarrow> Inl (KeyError ''next'') | Some r \<Rightarrow> Inr r)"

definition path_map :: "(string \<times> string) list" where
  "path_map =
     [(''Profile Analyzer'', ''Profile Analyzer''),
      (''Job Fit Analyzer'', ''Job Fit Analyzer''),
      (''Content Enhancer'', ''Content Enhancer''),
      (''Career Counselor'', ''Career Counselor''),
      (''__end__'', END)]"

text \<open>
  \<^verbatim>\<open>
  workflow.add_edge("Profile Analyzer", END)
  workflow.add_edge("Content Enhancer", END)
  workflow.add_edge("Job Fit Analyzer", END)
  workflow.add_edge("Career Counselor", END)
  \<close>
\<close>

definition edges :: "(string \<times> string) list" where
  "edges =
     [(''Profile Analyzer'', END), (''Content Enhancer'', END),
      (''Job Fit Analyzer'', END), (''Career Counselor'', END)]"

text \<open>
  The node that runs after \<open>node\<close>, read in the state the node's update has been
  written to. Out of the conditional source it is the entry of \<open>path_map\<close> under the
  value of \<open>path\<close>; a value with no entry is a \<^verbatim>\<open>KeyError\<close>, the map has no default.
  Out of any other node it is the target of its plain edge; a node with no edge ends
  the run.
\<close>

definition successor :: "string \<Rightarrow> AgentState \<Rightarrow> exn + string" where
  "successor node state =
     (if node = conditional_source then
        (case path state of
           Inl e \<Rightarrow> Inl e
         | Inr r \<Rightarrow> (case map_of path_map r of
                       None \<Rightarrow> Inl (KeyError r)
                     | Some target \<Rightarrow> Inr target))
      else (case map_of edges node of None \<Rightarrow> Inr END | Some target \<Rightarrow> Inr target))"

text \<open>
  What a run of the compiled graph gives its caller: the chunks it streamed (one per
  node that returned, holding the node's name and its update), the nodes it invoked in
  order (a node that raised included), the exception that ended it if one did, the
  state it left in the checkpoint, and the backend's state.
\<close>

record 'b run =
  chunks :: "(string \<times> StateUpdate) list"
  visited :: "string list"
  raised :: "exn option"
  final :: AgentState
  backend :: 'b

text \<open>
  The runner's loop, started at \<open>node\<close>: stop at \<open>END\<close>; otherwise invoke the node,
  write its update to the state, stream the chunk and go on at the successor. An
  exception of a node ends the run and leaves the state as it was before that node.
  The first argument is the number of steps left before the runner gives up with
  \<open>GraphRecursionError\<close>.
\<close>

fun stream_from :: "nat \<Rightarrow> 'b llm \<Rightarrow> string \<Rightarrow> AgentState \<Rightarrow> 'b \<Rightarrow> 'b run" where
  "stream_from 0 llm node state b =
     \<lparr>chunks = [], visited = [],
      raised = (if node = END then None else Some GraphRecursionError),
      final = state, backend = b\<rparr>"
| "stream_from (Suc limit) llm node state b =
     (if node = END then
        \<lparr>chunks = [], visited = [], raised = None, final = state, backend = b\<rparr>
      else
        (case map_of (nodes llm) node of
           None \<Rightarrow>
             \<lparr>chunks = [], visited = [], raised = Some (KeyError node),
              final = state, backend = b\<rparr>
         | Some runnable \<Rightarrow>
             (case runnable state b of
                (Inl e, b') \<Rightarrow>
                  \<lparr>chunks = [], visited = [node], raised = Some e,
                   final = state, backend = b'\<rparr>
              | (Inr u, b') \<Rightarrow>
                  (let state' = apply_update u state in
                   case successor node state' of
                     Inl e \<Rightarrow>
                       \<lparr>chunks = [(node, u)], visited = [node], raised = Some e,
                        final = state', backend = b'\<rparr>
                   | Inr node' \<Rightarrow>
                       (let r = stream_from limit llm node' state' b' in
                        r\<lparr>chunks := (node, u) # chunks r,
                          visited := node # visited r\<rparr>)))))"

definition recursion_limit :: nat where
  "recursion_limit = 25"

text \<open>
  \<^verbatim>\<open>graph.stream({"messages": ..., "profile_data": ...}, config)\<close> on the thread of the
  session: the input is written over the thread's checkpoint (both of its keys are
  given on every call, \<^verbatim>\<open>next\<close> keeps the checkpoint's value) and the run starts at
  the entry point, under the runner's default limit.
\<close>

record graph_input =
  input_messages :: "message list"
  input_profile_data :: string

definition initial_state :: "AgentState option \<Rightarrow> graph_input \<Rightarrow> AgentState" where
  "initial_state saved inp =
     \<lparr>messages = input_messages inp,
      profile_data = input_profile_data inp,
      next_agent = (case saved of None \<Rightarrow> None | Some c \<Rightarrow> next_agent c)\<rparr>"

definition graph_stream :: "'b llm \<Rightarrow> AgentState option \<Rightarrow> graph_input \<Rightarrow> 'b \<Rightarrow> 'b run" where
  "graph_stream llm saved inp b =
     stream_from recursion_limit llm entry_point (initial_state saved inp) b"

section \<open>One turn of the chat (app.py)\<close>

text \<open>
  The session holds the conversation (\<^verbatim>\<open>st.session_state.messages\<close>), the profile
  summary (\<^verbatim>\<open>st.session_state.profile_summary\<close>) and, under its thread id, the graph's
  checkpoint.
\<close>

record session =
  session_messages :: "message list"
  profile_summary :: string
  checkpoint :: "AgentState option"

text \<open>
  \<^verbatim>\<open>
  for chunk in st.session_state.graph.stream(...):
      for agent_name, state in chunk.items():
          if agent_name != "supervisor" and isinstance(state["messages"][-1], AIMessage):
              latest_content = state["messages"][-1].content
              if latest_content:
                  final_ai_response = latest_content
  \<close>
\<close>

fun consume_chunks :: "(string \<times> StateUpdate) list \<Rightarrow> string \<Rightarrow> exn + string" where
  "consume_chunks [] final_ai_response = Inr final_ai_response"
| "consume_chunks ((agent_name, state) # rest) final_ai_response =
     (if agent_name \<noteq> ''supervisor'' then
        (case messages_upd state of
           None \<Rightarrow> Inl (KeyError ''messages'')
         | Some ms \<Rightarrow>
             if ms = [] then Inl IndexError
             else if is_AIMessage (last ms) then
               (let latest_content = content (last ms) in
                if latest_content \<noteq> '''' then consume_chunks rest latest_content
                else consume_chunks rest final_ai_response)
             else consume_chunks rest final_ai_response)
      else consume_chunks rest final_ai_response)"

text \<open>
  \<^verbatim>\<open>
  if prompt := st.chat_input("Ask a follow-up question..."):
      st.session_state.messages.append(HumanMessage(content=prompt))
      ...
      final_ai_response = ""
      for chunk in st.session_state.graph.stream(
              {"messages": st.session_state.messages,
               "profile_data": st.session_state.profile_summary}, config=config):
          ...
      if final_ai_response:
          st.session_state.messages.append(AIMessage(content=final_ai_response))
  \<close>
  The turn gives back the exception that left it, if one did, the session and the
  backend's state. An empty \<^verbatim>\<open>prompt\<close> is no turn. The loop over the chunks raises
  nothing on the chunks this graph streams (\<open>consume_supervisor_only\<close> and
  \<open>consume_role_reply\<close> below), so consuming them after the run gives what consuming
  them as they arrive gives. The first, automatic turn of a session does the same
  with a fixed prompt on an empty conversation; its extra test, that the content is
  not part of the empty \<^verbatim>\<open>final_ai_response\<close>, holds for every content that is not
  empty.
\<close>

definition chat_turn :: "'b llm \<Rightarrow> string \<Rightarrow> session \<Rightarrow> 'b \<Rightarrow> (exn option \<times> session) \<times> 'b" where
  "chat_turn llm prompt s b =
     (if prompt = '''' then ((None, s), b)
      else
        (let appended = session_messages s @ [HumanMessage prompt];
             r = graph_stream llm (checkpoint s)
                   \<lparr>input_messages = appended, input_profile_data = profile_summary s\<rparr> b;
             s' = s\<lparr>session_messages := appended, checkpoint := Some (final r)\<rparr>
         in case consume_chunks (chunks r) '''' of
              Inl e \<Rightarrow> ((Some e, s'), backend r)
            | Inr final_ai_response \<Rightarrow>
                (case raised r of
                   Some e \<Rightarrow> ((Some e, s'), backend r)
                 | None \<Rightarrow>
                     if final_ai_response \<noteq> '''' then
                       ((None, s'\<lparr>session_messages :=
                                   appended @ [AIMessage final_ai_response]\<rparr>), backend r)
                     else ((None, s'), backend r))))"

section \<open>A deterministic stub backend\<close>

text \<open>
  The backend of the concrete instances below: its state is a script of answers, and
  each call, whatever its prompt, takes the next answer off the script; on an empty
  script the call raises.
\<close>

definition scripted :: "string list llm" where
  "scripted =
     \<lparr>tool_call = (\<lambda>p script. case script of
                      [] \<Rightarrow> (Inl ''timeout'', [])
                    | answer # rest \<Rightarrow> (Inr answer, rest)),
      invoke = (\<lambda>p script. case script of
                   [] \<Rightarrow> (Inl ''timeout'', [])
                 | answer # rest \<Rightarrow> (Inr (AIMessage answer), rest))\<rparr>"

section \<open>Properties of the latest user request\<close>

lemma scan_reversed_skip:
  "\<forall>m \<in> set skipped. \<not> is_HumanMessage m \<Longrightarrow>
   scan_reversed (skipped @ rest) = scan_reversed rest"
  by (induction skipped) simp_all

lemma get_current_user_message_decomp:
  "\<forall>m \<in> set after. \<not> is_HumanMessage m \<Longrightarrow>
   get_current_user_message (before @ HumanMessage c # after) = c"
  using scan_reversed_skip [of "rev after" "HumanMessage c # rev before"]
  by (simp add: get_current_user_message_def)

lemma get_current_user_message_none:
  "\<forall>m \<in> set msgs. \<not> is_HumanMessage m \<Longrightarrow> get_current_user_message msgs = ''''"
  using scan_reversed_skip [of "rev msgs" "[]"]
  by (simp add: get_current_user_message_def)

section \<open>Nodes, updates and edges\<close>

lemma stream_from_END:
  "stream_from k llm END s b =
     \<lparr>chunks = [], visited = [], raised = None, final = s, backend = b\<rparr>"
  by (cases k) simp_all

lemma supervisor_update:
  "SupervisorAgent_call llm s b = (Inr u, b') \<Longrightarrow>
   \<exists>r. r \<in> set next_agent_literal \<and>
       u = \<lparr>messages_upd = None, profile_data_upd = None, next_upd = Some r\<rparr>"
  by (auto simp: SupervisorAgent_call_def with_structured_output_def Let_def
           split: prod.splits sum.splits if_splits)

lemma agent_wrapper_update:
  "agent_wrapper p llm s b = (Inr u, b') \<Longrightarrow>
   \<exists>response. u = \<lparr>messages_upd = Some [response], profile_data_upd = None, next_upd = None\<rparr>"
  by (auto simp: agent_wrapper_def Let_def split: prod.splits sum.splits)

lemma agent_wrapper_raises:
  "agent_wrapper p llm s b = (Inl e, b') \<Longrightarrow> \<exists>cause. e = BackendError cause"
  by (auto simp: agent_wrapper_def Let_def split: prod.splits sum.splits)

lemma apply_next_only:
  "apply_update \<lparr>messages_upd = None, profile_data_upd = None, next_upd = Some r\<rparr> s =
     s\<lparr>next_agent := Some r\<rparr>"
  by (simp add: apply_update_def)

lemma apply_messages_only:
  "apply_update \<lparr>messages_upd = Some ms, profile_data_upd = None, next_upd = None\<rparr> s =
     s\<lparr>messages := ms\<rparr>"
  by (simp add: apply_update_def)

lemma map_of_path_map:
  "map_of path_map r =
     (if r \<in> set next_agent_literal then Some (if r = ''__end__'' then END else r) else None)"
  by (simp add: path_map_def next_agent_literal_def END_def)

lemma successor_supervisor:
  "successor ''supervisor'' (s\<lparr>next_agent := Some r\<rparr>) =
     (if r \<in> set next_agent_literal then Inr r else Inl (KeyError r))"
  by (simp add: successor_def conditional_source_def path_def map_of_path_map END_def)

lemma map_of_nodes:
  "map_of (nodes llm) name =
     (if name = ''supervisor'' then Some (SupervisorAgent_call llm)
      else if name = ''Profile Analyzer'' then Some (agent_wrapper profile_analyzer_prompt llm)
      else if name = ''Job Fit Analyzer'' then Some (agent_wrapper job_fit_analyzer_prompt llm)
      else if name = ''Content Enhancer'' then Some (agent_wrapper content_enhancer_prompt llm)
      else if name = ''Career Counselor'' then Some (agent_wrapper career_counselor_prompt llm)
      else None)"
  by (simp add: nodes_def create_profile_analyzer_def create_job_fit_analyzer_def
        create_content_enhancer_def create_career_counselor_def)

lemma successor_role:
  "name \<in> {''Profile Analyzer'', ''Job Fit Analyzer'', ''Content Enhancer'', ''Career Counselor''} \<Longrightarrow>
   successor name s = Inr END"
  by (auto simp: successor_def conditional_source_def edges_def)

lemma run_supervisor_raises:
  "SupervisorAgent_call llm s b = (Inl e, b') \<Longrightarrow>
   stream_from (Suc k) llm ''supervisor'' s b =
     \<lparr>chunks = [], visited = [''supervisor''], raised = Some e, final = s, backend = b'\<rparr>"
  by (simp add: map_of_nodes END_def)

lemma run_end:
  "SupervisorAgent_call llm s b =
     (Inr \<lparr>messages_upd = None, profile_data_upd = None, next_upd = Some ''__end__''\<rparr>, b') \<Longrightarrow>
   stream_from (Suc k) llm ''supervisor'' s b =
     \<lparr>chunks = [(''supervisor'',
                 \<lparr>messages_upd = None, profile_data_upd = None, next_upd = Some ''__end__''\<rparr>)],
      visited = [''supervisor''], raised = None,
      final = s\<lparr>next_agent := Some ''__end__''\<rparr>, backend = b'\<rparr>"
  using stream_from_END [of k llm "s\<lparr>next_agent := Some ''__end__''\<rparr>" b']
  by (simp add: map_of_nodes apply_next_only successor_supervisor next_agent_literal_def END_def)

lemma run_role_step:
  assumes "name \<in> {''Profile Analyzer'', ''Job Fit Analyzer'', ''Content Enhancer'', ''Career Counselor''}"
    and "map_of (nodes llm) name = Some f"
  shows "stream_from (Suc k) llm name s b =
     (case f s b of
        (Inl e, b') \<Rightarrow>
          \<lparr>chunks = [], visited = [name], raised = Some e, final = s, backend = b'\<rparr>
      | (Inr v, b') \<Rightarrow>
          \<lparr>chunks = [(name, v)], visited = [name], raised = None,
           final = apply_update v s, backend = b'\<rparr>)"
proof -
  from assms(1) have ne: "name \<noteq> END" by (auto simp: END_def)
  show ?thesis
    using ne assms(2) successor_role [OF assms(1)]
    by (simp add: stream_from_END split: prod.splits sum.splits)
qed

lemma run_role:
  assumes sup: "SupervisorAgent_call llm s b =
       (Inr \<lparr>messages_upd = None, profile_data_upd = None, next_upd = Some name\<rparr>, b1)"
    and name: "name \<in> {''Profile Analyzer'', ''Job Fit Analyzer'', ''Content Enhancer'', ''Career Counselor''}"
    and f: "map_of (nodes llm) name = Some f"
  shows "stream_from (Suc (Suc k)) llm ''supervisor'' s b =
     (case f (s\<lparr>next_agent := Some name\<rparr>) b1 of
        (Inl e, b') \<Rightarrow>
          \<lparr>chunks = [(''supervisor'',
                      \<lparr>messages_upd = None, profile_data_upd = None, next_upd = Some name\<rparr>)],
           visited = [''supervisor'', name], raised = Some e,
           final = s\<lparr>next_agent := Some name\<rparr>, backend = b'\<rparr>
      | (Inr v, b') \<Rightarrow>
          \<lparr>chunks = [(''supervisor'',
                      \<lparr>messages_upd = None, profile_data_upd = None, next_upd = Some name\<rparr>),
                     (name, v)],
           visited = [''supervisor'', name], raised = None,
           final = apply_update v (s\<lparr>next_agent := Some name\<rparr>), backend = b'\<rparr>)"
proof -
  from name have lit: "name \<in> set next_agent_literal"
    by (auto simp: next_agent_literal_def)
  have "stream_from (Suc (Suc k)) llm ''supervisor'' s b =
      (let r = stream_from (Suc k) llm name (s\<lparr>next_agent := Some name\<rparr>) b1 in
       r\<lparr>chunks := (''supervisor'',
                      \<lparr>messages_upd = None, profile_data_upd = None, next_upd = Some name\<rparr>) # chunks r,
         visited := ''supervisor'' # visited r\<rparr>)"
    using sup lit
    by (subst stream_from.simps(2))
       (simp add: map_of_nodes apply_next_only successor_supervisor END_def
             del: stream_from.simps)
  then show ?thesis
    by (simp only: run_role_step [OF name f] Let_def) (simp split: prod.splits sum.splits)
qed

section \<open>The shape of a run and of a turn\<close>

lemma recursion_limit_Suc: "recursion_limit = Suc (Suc 23)"
  by (simp add: recursion_limit_def)

lemma graph_stream_unfold:
  "graph_stream llm saved inp b =
     stream_from (Suc (Suc 23)) llm ''supervisor'' (initial_state saved inp) b"
  by (simp only: graph_stream_def recursion_limit_Suc entry_point_def)

lemma supervisor_raises:
  "SupervisorAgent_call llm s b = (Inl e, b') \<Longrightarrow>
   (\<exists>cause. e = BackendError cause) \<or> (\<exists>raw. e = ValidationError raw)"
  by (auto simp: SupervisorAgent_call_def with_structured_output_def Let_def
           split: prod.splits sum.splits if_splits)

lemma role_names:
  "r \<in> set next_agent_literal \<Longrightarrow> r \<noteq> ''__end__'' \<Longrightarrow>
   r \<in> {''Profile Analyzer'', ''Job Fit Analyzer'', ''Content Enhancer'', ''Career Counselor''}"
  by (auto simp: next_agent_literal_def)

lemma node_profile_analyzer:
  "map_of (nodes llm) ''Profile Analyzer'' = Some (agent_wrapper profile_analyzer_prompt llm)"
  by (simp add: nodes_def create_profile_analyzer_def)

lemma node_job_fit_analyzer:
  "map_of (nodes llm) ''Job Fit Analyzer'' = Some (agent_wrapper job_fit_analyzer_prompt llm)"
  by (simp add: nodes_def create_job_fit_analyzer_def)

lemma node_content_enhancer:
  "map_of (nodes llm) ''Content Enhancer'' = Some (agent_wrapper content_enhancer_prompt llm)"
  by (simp add: nodes_def create_content_enhancer_def)

lemma node_career_counselor:
  "map_of (nodes llm) ''Career Counselor'' = Some (agent_wrapper career_counselor_prompt llm)"
  by (simp add: nodes_def create_career_counselor_def)

lemma role_node:
  assumes "name \<in> {''Profile Analyzer'', ''Job Fit Analyzer'', ''Content Enhancer'', ''Career Counselor''}"
  shows "\<exists>p. map_of (nodes llm) name = Some (agent_wrapper p llm)"
proof -
  from assms have "name = ''Profile Analyzer'' \<or> name = ''Job Fit Analyzer''
      \<or> name = ''Content Enhancer'' \<or> name = ''Career Counselor''"
    by (simp only: insert_iff empty_iff simp_thms)
  then show ?thesis
  proof (elim disjE)
    assume "name = ''Profile Analyzer''"
    then show ?thesis by (simp only: node_profile_analyzer) (rule exI, rule refl)
  next
    assume "name = ''Job Fit Analyzer''"
    then show ?thesis by (simp only: node_job_fit_analyzer) (rule exI, rule refl)
  next
    assume "name = ''Content Enhancer''"
    then show ?thesis by (simp only: node_content_enhancer) (rule exI, rule refl)
  next
    assume "name = ''Career Counselor''"
    then show ?thesis by (simp only: node_career_counselor) (rule exI, rule refl)
  qed
qed

lemma graph_stream_raise:
  "SupervisorAgent_call llm (initial_state saved inp) b = (Inl e, b1) \<Longrightarrow>
   graph_stream llm saved inp b =
     \<lparr>chunks = [], visited = [''supervisor''], raised = Some e,
      final = initial_state saved inp, backend = b1\<rparr>"
  by (simp only: graph_stream_unfold run_supervisor_raises [of llm _ b e b1])

lemma graph_stream_end:
  "SupervisorAgent_call llm (initial_state saved inp) b =
     (Inr \<lparr>messages_upd = None, profile_data_upd = None, next_upd = Some ''__end__''\<rparr>, b1) \<Longrightarrow>
   graph_stream llm saved inp b =
     \<lparr>chunks = [(''supervisor'',
                 \<lparr>messages_upd = None, profile_data_upd = None, next_upd = Some ''__end__''\<rparr>)],
      visited = [''supervisor''], raised = None,
      final = (initial_state saved inp)\<lparr>next_agent := Some ''__end__''\<rparr>, backend = b1\<rparr>"
  by (simp only: graph_stream_unfold run_end [of llm _ b b1])

lemma graph_stream_role_raise:
  assumes "SupervisorAgent_call llm (initial_state saved inp) b =
       (Inr \<lparr>messages_upd = None, profile_data_upd = None, next_upd = Some name\<rparr>, b1)"
    and "name \<in> {''Profile Analyzer'', ''Job Fit Analyzer'', ''Content Enhancer'', ''Career Counselor''}"
    and "map_of (nodes llm) name = Some f"
    and "f ((initial_state saved inp)\<lparr>next_agent := Some name\<rparr>) b1 = (Inl e, b2)"
  shows "graph_stream llm saved inp b =
     \<lparr>chunks = [(''supervisor'',
                 \<lparr>messages_upd = None, profile_data_upd = None, next_upd = Some name\<rparr>)],
      visited = [''supervisor'', name], raised = Some e,
      final = (initial_state saved inp)\<lparr>next_agent := Some name\<rparr>, backend = b2\<rparr>"
  by (simp only: graph_stream_unfold run_role [OF assms(1,2,3)] assms(4) prod.case sum.case)

lemma graph_stream_role_return:
  assumes "SupervisorAgent_call llm (initial_state saved inp) b =
       (Inr \<lparr>messages_upd = None, profile_data_upd = None, next_upd = Some name\<rparr>, b1)"
    and "name \<in> {''Profile Analyzer'', ''Job Fit Analyzer'', ''Content Enhancer'', ''Career Counselor''}"
    and "map_of (nodes llm) name = Some f"
    and "f ((initial_state saved inp)\<lparr>next_agent := Some name\<rparr>) b1 = (Inr v, b2)"
  shows "graph_stream llm saved inp b =
     \<lparr>chunks = [(''supervisor'',
                 \<lparr>messages_upd = None, profile_data_upd = None, next_upd = Some name\<rparr>),
                (name, v)],
      visited = [''supervisor'', name], raised = None,
      final = apply_update v ((initial_state saved inp)\<lparr>next_agent := Some name\<rparr>),
      backend = b2\<rparr>"
  by (simp only: graph_stream_unfold run_role [OF assms(1,2,3)] assms(4) prod.case sum.case)

lemma role_not_supervisor:
  assumes "name \<in> {''Profile Analyzer'', ''Job Fit Analyzer'', ''Content Enhancer'', ''Career Counselor''}"
  shows "name \<noteq> ''supervisor''"
proof -
  from assms have "name = ''Profile Analyzer'' \<or> name = ''Job Fit Analyzer''
      \<or> name = ''Content Enhancer'' \<or> name = ''Career Counselor''"
    by (simp only: insert_iff empty_iff simp_thms)
  then show ?thesis
    by (elim disjE) simp_all
qed

lemma consume_supervisor_only:
  "consume_chunks [(''supervisor'', u)] acc = Inr acc"
  by simp

lemma consume_role_reply:
  "name \<noteq> ''supervisor'' \<Longrightarrow>
   consume_chunks
     [(''supervisor'', u),
      (name, \<lparr>messages_upd = Some [response], profile_data_upd = None, next_upd = None\<rparr>)] '''' =
   Inr (if is_AIMessage response \<and> content response \<noteq> '''' then content response else '''')"
  by (simp add: Let_def)

lemma chat_turn_supervisor_raises:
  assumes "prompt \<noteq> ''''"
    and "inp = \<lparr>input_messages = session_messages s @ [HumanMessage prompt],
                input_profile_data = profile_summary s\<rparr>"
    and "SupervisorAgent_call llm (initial_state (checkpoint s) inp) b = (Inl e, b1)"
  shows "chat_turn llm prompt s b =
     ((Some e, s\<lparr>session_messages := session_messages s @ [HumanMessage prompt],
                 checkpoint := Some (initial_state (checkpoint s) inp)\<rparr>), b1)"
  using assms(1) graph_stream_raise [OF assms(3)]
  by (simp add: chat_turn_def Let_def assms(2) [symmetric])

lemma chat_turn_end:
  assumes "prompt \<noteq> ''''"
    and "inp = \<lparr>input_messages = session_messages s @ [HumanMessage prompt],
                input_profile_data = profile_summary s\<rparr>"
    and "SupervisorAgent_call llm (initial_state (checkpoint s) inp) b =
       (Inr \<lparr>messages_upd = None, profile_data_upd = None, next_upd = Some ''__end__''\<rparr>, b1)"
  shows "chat_turn llm prompt s b =
     ((None, s\<lparr>session_messages := session_messages s @ [HumanMessage prompt],
               checkpoint := Some ((initial_state (checkpoint s) inp)
                                     \<lparr>next_agent := Some ''__end__''\<rparr>)\<rparr>), b1)"
  using assms(1) graph_stream_end [OF assms(3)]
  by (simp add: chat_turn_def Let_def assms(2) [symmetric])

lemma chat_turn_role_raises:
  assumes "prompt \<noteq> ''''"
    and "inp = \<lparr>input_messages = session_messages s @ [HumanMessage prompt],
                input_profile_data = profile_summary s\<rparr>"
    and "SupervisorAgent_call llm (initial_state (checkpoint s) inp) b =
       (Inr \<lparr>messages_upd = None, profile_data_upd = None, next_upd = Some name\<rparr>, b1)"
    and "name \<in> {''Profile Analyzer'', ''Job Fit Analyzer'', ''Content Enhancer'', ''Career Counselor''}"
    and "map_of (nodes llm) name = Some f"
    and "f ((initial_state (checkpoint s) inp)\<lparr>next_agent := Some name\<rparr>) b1 = (Inl e, b2)"
  shows "chat_turn llm prompt s b =
     ((Some e, s\<lparr>session_messages := session_messages s @ [HumanMessage prompt],
                 checkpoint := Some ((initial_state (checkpoint s) inp)
                                       \<lparr>next_agent := Some name\<rparr>)\<rparr>), b2)"
  using assms(1) graph_stream_role_raise [OF assms(3,4,5,6)]
  by (simp add: chat_turn_def Let_def assms(2) [symmetric])

lemma chat_turn_role_returns:
  assumes "prompt \<noteq> ''''"
    and "inp = \<lparr>input_messages = session_messages s @ [HumanMessage prompt],
                input_profile_data = profile_summary s\<rparr>"
    and "SupervisorAgent_call llm (initial_state (checkpoint s) inp) b =
       (Inr \<lparr>messages_upd = None, profile_data_upd = None, next_upd = Some name\<rparr>, b1)"
    and "name \<in> {''Profile Analyzer'', ''Job Fit Analyzer'', ''Content Enhancer'', ''Career Counselor''}"
    and "map_of (nodes llm) name = Some f"
    and "f ((initial_state (checkpoint s) inp)\<lparr>next_agent := Some name\<rparr>) b1 =
       (Inr \<lparr>messages_upd = Some [response], profile_data_upd = None, next_upd = None\<rparr>, b2)"
  shows "chat_turn llm prompt s b =
     ((None, s\<lparr>session_messages :=
                  (session_messages s @ [HumanMessage prompt]) @
                  (if is_AIMessage response \<and> content response \<noteq> ''''
                   then [AIMessage (content response)] else []),
               checkpoint := Some ((initial_state (checkpoint s) inp)
                                     \<lparr>next_agent := Some name, messages := [response]\<rparr>)\<rparr>), b2)"
  using assms(1) graph_stream_role_return [OF assms(3,4,5,6)]
    consume_role_reply [OF role_not_supervisor [OF assms(4)], of _ response]
  by (simp add: chat_turn_def Let_def assms(2) [symmetric] apply_messages_only
           del: consume_chunks.simps)

section \<open>Further facts on the supervisor, the runner and the stub\<close>

lemma visited_shape:
  assumes "name \<in> {''Profile Analyzer'', ''Job Fit Analyzer'', ''Content Enhancer'', ''Career Counselor''}"
  shows "[''supervisor'', name] \<in>
     {[''supervisor''],
      [''supervisor'', ''Profile Analyzer''], [''supervisor'', ''Job Fit Analyzer''],
      [''supervisor'', ''Content Enhancer''], [''supervisor'', ''Career Counselor'']}"
proof -
  from assms have "name = ''Profile Analyzer'' \<or> name = ''Job Fit Analyzer''
      \<or> name = ''Content Enhancer'' \<or> name = ''Career Counselor''"
    by (simp only: insert_iff empty_iff simp_thms)
  then show ?thesis
    by (elim disjE) (simp_all only: insert_iff simp_thms)
qed

lemma next_only:
  assumes "SupervisorAgent_call llm s b = (Inr u, b1)" and "next_upd u = Some r"
  shows "r \<in> set next_agent_literal"
    and "SupervisorAgent_call llm s b =
       (Inr \<lparr>messages_upd = None, profile_data_upd = None, next_upd = Some r\<rparr>, b1)"
proof -
  from supervisor_update [OF assms(1)] obtain r' where
    r': "r' \<in> set next_agent_literal"
      "u = \<lparr>messages_upd = None, profile_data_upd = None, next_upd = Some r'\<rparr>"
    by blast
  with assms(2) have "r' = r" by simp
  with r' assms(1) show "r \<in> set next_agent_literal"
    and "SupervisorAgent_call llm s b =
       (Inr \<lparr>messages_upd = None, profile_data_upd = None, next_upd = Some r\<rparr>, b1)"
    by simp_all
qed

lemma initial_state_messages: "messages (initial_state saved inp) = input_messages inp"
  by (simp add: initial_state_def)

lemma apply_next_messages:
  "messages (apply_update \<lparr>messages_upd = None, profile_data_upd = None, next_upd = Some r\<rparr> s)
     = messages s"
  by (simp add: apply_update_def)

lemma builder_of_role:
  assumes "name \<in> {''Profile Analyzer'', ''Job Fit Analyzer'', ''Content Enhancer'', ''Career Counselor''}"
    and "map_of (nodes llm) name = Some f"
  shows "\<exists>p. f = agent_wrapper p llm"
proof -
  from role_node [OF assms(1)] obtain p where "map_of (nodes llm) name = Some (agent_wrapper p llm)"
    by (rule exE)
  with assms(2) have "f = agent_wrapper p llm" by simp
  then show ?thesis by (rule exI)
qed

lemma scripted_supervisor:
  "SupervisorAgent_call scripted s (answer # rest) =
     (if answer \<in> set next_agent_literal
      then (Inr \<lparr>messages_upd = None, profile_data_upd = None, next_upd = Some answer\<rparr>, rest)
      else (Inl (ValidationError answer), rest))"
  by (simp add: SupervisorAgent_call_def with_structured_output_def scripted_def)

lemma scripted_supervisor_timeout:
  "SupervisorAgent_call scripted s [] = (Inl (BackendError ''timeout''), [])"
  by (simp add: SupervisorAgent_call_def with_structured_output_def scripted_def)

lemma scripted_agent_wrapper:
  "agent_wrapper p scripted s (answer # rest) =
     (Inr \<lparr>messages_upd = Some [AIMessage answer], profile_data_upd = None, next_upd = None\<rparr>,
      rest)"
  by (simp add: agent_wrapper_def scripted_def)

lemma scripted_agent_wrapper_timeout:
  "agent_wrapper p scripted s [] = (Inl (BackendError ''timeout''), [])"
  by (simp add: agent_wrapper_def scripted_def)

lemma literal_end: "''__end__'' \<in> set next_agent_literal"
  by (simp add: next_agent_literal_def)

lemma literal_content_enhancer: "''Content Enhancer'' \<in> set next_agent_literal"
  by (simp add: next_agent_literal_def)

lemma node_runnable:
  assumes "map_of (nodes llm) node = Some f"
  shows "f = SupervisorAgent_call llm \<or> (\<exists>p. f = agent_wrapper p llm)"
  using assms unfolding map_of_nodes
  by (simp split: if_splits) blast+

lemma runnable_keeps_profile_data:
  assumes "map_of (nodes llm) node = Some f" and "f s b = (Inr u, b1)"
  shows "profile_data (apply_update u s) = profile_data s"
proof -
  from node_runnable [OF assms(1)] show ?thesis
  proof
    assume "f = SupervisorAgent_call llm"
    with assms(2) supervisor_update [of llm s b u b1] show ?thesis
      by (auto simp: apply_update_def)
  next
    assume "\<exists>p. f = agent_wrapper p llm"
    then obtain p where "f = agent_wrapper p llm" ..
    with assms(2) agent_wrapper_update [of p llm s b u b1] show ?thesis
      by (auto simp: apply_update_def)
  qed
qed

lemma stream_from_profile_data:
  "profile_data (final (stream_from k llm node s b)) = profile_data s"
proof (induction k arbitrary: node s b)
  case 0
  show ?case by simp
next
  case (Suc k)
  show ?case
  proof (cases "node = END")
    case True
    then show ?thesis by simp
  next
    case False
    show ?thesis
    proof (cases "map_of (nodes llm) node")
      case None
      with False show ?thesis by simp
    next
      case (Some f)
      obtain res b1 where call: "f s b = (res, b1)" by (cases "f s b")
      show ?thesis
      proof (cases res)
        case (Inl e)
        with False Some call show ?thesis by simp
      next
        case (Inr u)
        with call have "f s b = (Inr u, b1)" by simp
        from runnable_keeps_profile_data [OF Some this]
        have keep: "profile_data (apply_update u s) = profile_data s" .
        show ?thesis
        proof (cases "successor node (apply_update u s)")
          case (Inl e)
          with False Some call Inr keep show ?thesis by simp
        next
          case next_node: (Inr node')
          from Suc.IH [of node' "apply_update u s" b1] keep
          have "profile_data (final (stream_from k llm node' (apply_update u s) b1)) =
              profile_data s"
            by simp
          with False Some call Inr next_node show ?thesis
            by (simp add: Let_def)
        qed
      qed
    qed
  qed
qed

lemma chat_turn_profile_summary:
  "profile_summary (snd (fst (chat_turn llm prompt sess b))) = profile_summary sess"
  by (simp add: chat_turn_def Let_def split: sum.splits option.splits)

lemma path_map_keys: "map fst path_map = next_agent_literal"
  by (simp add: path_map_def next_agent_literal_def)

lemma next_agent_literal_distinct: "distinct next_agent_literal"
  by (simp add: next_agent_literal_def)

lemma filter_key_once:
  "distinct (map fst entries) \<Longrightarrow> k \<in> set (map fst entries) \<Longrightarrow>
   length (filter (\<lambda>entry. fst entry = k) entries) = 1"
proof (induction entries)
  case Nil
  then show ?case by simp
next
  case (Cons entry entries)
  show ?case
  proof (cases "fst entry = k")
    case True
    with Cons.prems(1) have "\<forall>other \<in> set entries. fst other \<noteq> k"
      by (force simp: image_iff)
    then have "filter (\<lambda>entry. fst entry = k) entries = []"
      by (simp add: filter_empty_conv)
    with True show ?thesis by simp
  next
    case False
    with Cons show ?thesis by simp
  qed
qed

section \<open>The supervisor reads the latest user message only\<close>

text \<open>
  C1. The supervisor's decision depends only on the content of the latest user
  message: for two states whose most recent \<^verbatim>\<open>HumanMessage\<close> has the same content,
  whatever precedes and follows it and whatever the other fields hold, the supervisor
  called with the same backend in the same backend state gives the same result.
\<close>

theorem supervisor_depends_on_latest_user_message_only:
  assumes "messages s1 = before1 @ HumanMessage c # after1"
    and "\<forall>m \<in> set after1. \<not> is_HumanMessage m"
    and "messages s2 = before2 @ HumanMessage c # after2"
    and "\<forall>m \<in> set after2. \<not> is_HumanMessage m"
  shows "SupervisorAgent_call llm s1 b = SupervisorAgent_call llm s2 b"
proof -
  from assms(1,2) have "get_current_user_message (messages s1) = c"
    by (simp only: get_current_user_message_decomp)
  moreover from assms(3,4) have "get_current_user_message (messages s2) = c"
    by (simp only: get_current_user_message_decomp)
  ultimately show ?thesis
    by (simp only: SupervisorAgent_call_def)
qed

text \<open>
  Two histories that share only their latest user message, by C1.
\<close>

theorem supervisor_depends_on_latest_user_message_only_witness:
  "SupervisorAgent_call scripted
     \<lparr>messages = [HumanMessage ''analyze my profile'', AIMessage ''Your profile ...'',
                  HumanMessage ''How do I improve my headline?'', AIMessage ''partial''],
      profile_data = ''summary one'', next_agent = Some ''Profile Analyzer''\<rparr>
     [''Content Enhancer'']
   = SupervisorAgent_call scripted
     \<lparr>messages = [HumanMessage ''How do I improve my headline?''],
      profile_data = ''summary two'', next_agent = None\<rparr>
     [''Content Enhancer'']"
proof -
  let ?s1 = "\<lparr>messages = [HumanMessage ''analyze my profile'', AIMessage ''Your profile ...'',
                  HumanMessage ''How do I improve my headline?'', AIMessage ''partial''],
      profile_data = ''summary one'', next_agent = Some ''Profile Analyzer''\<rparr>"
  let ?s2 = "\<lparr>messages = [HumanMessage ''How do I improve my headline?''],
      profile_data = ''summary two'', next_agent = None\<rparr>"
  have m1: "messages ?s1 = [HumanMessage ''analyze my profile'', AIMessage ''Your profile ...'']
      @ HumanMessage ''How do I improve my headline?'' # [AIMessage ''partial'']"
    by simp
  have a1: "\<forall>m \<in> set [AIMessage ''partial'']. \<not> is_HumanMessage m"
    by simp
  have m2: "messages ?s2 = [] @ HumanMessage ''How do I improve my headline?'' # []"
    by simp
  have a2: "\<forall>m \<in> set ([] :: message list). \<not> is_HumanMessage m"
    by simp
  show ?thesis
    by (rule supervisor_depends_on_latest_user_message_only [OF m1 a1 m2 a2])
qed

section \<open>What a successful turn leaves in the messages\<close>

text \<open>
  C2, as amended. After a successful turn the update of the selected role agent holds
  exactly the generated message, and the messages of the graph's state, a key with no
  reducer, are that one message. The session's messages are the prior messages, in
  order and with nothing deleted, followed by the user's message and then by one
  assistant message carrying the generated content when the reply is an
  \<^verbatim>\<open>AIMessage\<close> whose content is not empty; otherwise nothing follows the user's
  message.
\<close>

theorem successful_turn_messages:
  assumes "prompt \<noteq> ''''"
    and "inp = \<lparr>input_messages = session_messages s @ [HumanMessage prompt],
                input_profile_data = profile_summary s\<rparr>"
    and "SupervisorAgent_call llm (initial_state (checkpoint s) inp) b = (Inr u, b1)"
    and "next_upd u = Some name"
    and "name \<noteq> ''__end__''"
    and "map_of (nodes llm) name = Some builder"
    and "builder (apply_update u (initial_state (checkpoint s) inp)) b1 = (Inr v, b2)"
  shows "\<exists>response.
       v = \<lparr>messages_upd = Some [response], profile_data_upd = None, next_upd = None\<rparr>
     \<and> messages (final (graph_stream llm (checkpoint s) inp b)) = [response]
     \<and> fst (fst (chat_turn llm prompt s b)) = None
     \<and> session_messages (snd (fst (chat_turn llm prompt s b))) =
         (session_messages s @ [HumanMessage prompt]) @
         (if is_AIMessage response \<and> content response \<noteq> ''''
          then [AIMessage (content response)] else [])"
proof -
  note lit = next_only(1) [OF assms(3,4)] and call = next_only(2) [OF assms(3,4)]
  from lit assms(5) have name: "name \<in> {''Profile Analyzer'', ''Job Fit Analyzer'',
      ''Content Enhancer'', ''Career Counselor''}"
    by (rule role_names)
  from assms(3) call
  have u: "u = \<lparr>messages_upd = None, profile_data_upd = None, next_upd = Some name\<rparr>"
    by simp
  have st: "apply_update u (initial_state (checkpoint s) inp) =
      (initial_state (checkpoint s) inp)\<lparr>next_agent := Some name\<rparr>"
    by (simp only: u apply_next_only)
  from assms(7) have returns:
    "builder ((initial_state (checkpoint s) inp)\<lparr>next_agent := Some name\<rparr>) b1 = (Inr v, b2)"
    by (simp only: st)
  from builder_of_role [OF name assms(6)] obtain p where p: "builder = agent_wrapper p llm"
    by (rule exE)
  from returns have "agent_wrapper p llm
      ((initial_state (checkpoint s) inp)\<lparr>next_agent := Some name\<rparr>) b1 = (Inr v, b2)"
    by (simp only: p)
  from agent_wrapper_update [OF this] obtain response where
    v: "v = \<lparr>messages_upd = Some [response], profile_data_upd = None, next_upd = None\<rparr>"
    by (rule exE)
  from returns v have returns':
    "builder ((initial_state (checkpoint s) inp)\<lparr>next_agent := Some name\<rparr>) b1 =
       (Inr \<lparr>messages_upd = Some [response], profile_data_upd = None, next_upd = None\<rparr>, b2)"
    by simp
  have run: "messages (final (graph_stream llm (checkpoint s) inp b)) = [response]"
    by (simp only: graph_stream_role_return [OF call name assms(6) returns'] apply_messages_only)
       simp
  have turn: "fst (fst (chat_turn llm prompt s b)) = None
     \<and> session_messages (snd (fst (chat_turn llm prompt s b))) =
         (session_messages s @ [HumanMessage prompt]) @
         (if is_AIMessage response \<and> content response \<noteq> ''''
          then [AIMessage (content response)] else [])"
    by (simp only: chat_turn_role_returns [OF assms(1,2) call name assms(6) returns']) simp
  from v run turn show ?thesis by (intro exI [of _ response] conjI) simp_all
qed

text \<open>
  The headline scenario of the specification, by the amended C2.
\<close>

theorem successful_turn_messages_witness:
  "session_messages (snd (fst (chat_turn scripted ''How do I improve my headline?''
     \<lparr>session_messages = [], profile_summary = ''summary'', checkpoint = None\<rparr>
     [''Content Enhancer'', ''Rewrite headline to: ...'']))) =
   [HumanMessage ''How do I improve my headline?'', AIMessage ''Rewrite headline to: ...'']
   \<and> messages (final (graph_stream scripted None
      \<lparr>input_messages = [HumanMessage ''How do I improve my headline?''],
       input_profile_data = ''summary''\<rparr>
      [''Content Enhancer'', ''Rewrite headline to: ...''])) =
     [AIMessage ''Rewrite headline to: ...'']"
proof -
  let ?s = "\<lparr>session_messages = [], profile_summary = ''summary'', checkpoint = None\<rparr>"
  let ?inp = "\<lparr>input_messages = session_messages ?s @ [HumanMessage ''How do I improve my headline?''],
               input_profile_data = profile_summary ?s\<rparr>"
  let ?u = "\<lparr>messages_upd = None, profile_data_upd = None, next_upd = Some ''Content Enhancer''\<rparr>"
  let ?v = "\<lparr>messages_upd = Some [AIMessage ''Rewrite headline to: ...''],
             profile_data_upd = None, next_upd = None\<rparr>"
  have nonempty: "''How do I improve my headline?'' \<noteq> ''''"
    by simp
  have decision: "SupervisorAgent_call scripted (initial_state (checkpoint ?s) ?inp)
      [''Content Enhancer'', ''Rewrite headline to: ...''] = (Inr ?u, [''Rewrite headline to: ...''])"
    by (simp only: scripted_supervisor literal_content_enhancer if_True)
  have role: "next_upd ?u = Some ''Content Enhancer''"
    by simp
  have not_end: "''Content Enhancer'' \<noteq> ''__end__''"
    by simp
  have returns: "agent_wrapper content_enhancer_prompt scripted
      (apply_update ?u (initial_state (checkpoint ?s) ?inp)) [''Rewrite headline to: ...'']
      = (Inr ?v, [])"
    by (rule scripted_agent_wrapper)
  from successful_turn_messages
    [OF nonempty refl decision role not_end node_content_enhancer returns]
  show ?thesis
    by simp
qed

text \<open>
  C2 as stated fails when the role agent generates an empty text: the turn succeeds,
  the session's messages are the prior ones alone, and the state's messages are the
  generated message alone; neither is the prior sequence followed by the generated
  message.
\<close>

theorem append_only_counterexample:
  "create_content_enhancer scripted
     \<lparr>messages = [HumanMessage ''hi''], profile_data = ''summary'',
      next_agent = Some ''Content Enhancer''\<rparr> [''''] =
     (Inr \<lparr>messages_upd = Some [AIMessage ''''], profile_data_upd = None, next_upd = None\<rparr>, [])
   \<and> chat_turn scripted ''hi''
       \<lparr>session_messages = [], profile_summary = ''summary'', checkpoint = None\<rparr>
       [''Content Enhancer'', ''''] =
     ((None,
       \<lparr>session_messages = [HumanMessage ''hi''], profile_summary = ''summary'',
        checkpoint = Some \<lparr>messages = [AIMessage ''''], profile_data = ''summary'',
                            next_agent = Some ''Content Enhancer''\<rparr>\<rparr>), [])
   \<and> session_messages (snd (fst (chat_turn scripted ''hi''
       \<lparr>session_messages = [], profile_summary = ''summary'', checkpoint = None\<rparr>
       [''Content Enhancer'', '''']))) \<noteq> [HumanMessage ''hi''] @ [AIMessage '''']
   \<and> map_option messages (checkpoint (snd (fst (chat_turn scripted ''hi''
       \<lparr>session_messages = [], profile_summary = ''summary'', checkpoint = None\<rparr>
       [''Content Enhancer'', '''']))))
     \<noteq> Some ([HumanMessage ''hi''] @ [AIMessage ''''])"
proof -
  let ?s = "\<lparr>session_messages = [], profile_summary = ''summary'', checkpoint = None\<rparr>"
  let ?inp = "\<lparr>input_messages = session_messages ?s @ [HumanMessage ''hi''],
               input_profile_data = profile_summary ?s\<rparr>"
  have nonempty: "''hi'' \<noteq> ''''"
    by simp
  have decision: "SupervisorAgent_call scripted (initial_state (checkpoint ?s) ?inp)
      [''Content Enhancer'', ''''] =
      (Inr \<lparr>messages_upd = None, profile_data_upd = None, next_upd = Some ''Content Enhancer''\<rparr>,
       [''''])"
    by (simp only: scripted_supervisor literal_content_enhancer if_True)
  have role: "''Content Enhancer'' \<in> {''Profile Analyzer'', ''Job Fit Analyzer'',
      ''Content Enhancer'', ''Career Counselor''}"
    by simp
  have returns: "agent_wrapper content_enhancer_prompt scripted
      ((initial_state (checkpoint ?s) ?inp)\<lparr>next_agent := Some ''Content Enhancer''\<rparr>) ['''']
      = (Inr \<lparr>messages_upd = Some [AIMessage ''''], profile_data_upd = None, next_upd = None\<rparr>,
         [])"
    by (rule scripted_agent_wrapper)
  from chat_turn_role_returns [OF nonempty refl decision role node_content_enhancer returns]
  show ?thesis
    by (simp add: initial_state_def create_content_enhancer_def scripted_agent_wrapper)
qed

section \<open>A failed role agent\<close>

text \<open>
  C3. If the generation call of the selected role agent fails, the turn ends with
  that failure, an exception of the backend carrying its cause, handed to the caller;
  no assistant message is appended: the session's messages, and the messages of the
  checkpointed state, are the prior messages with the user's message appended.
\<close>

theorem failed_builder_appends_nothing:
  assumes "prompt \<noteq> ''''"
    and "inp = \<lparr>input_messages = session_messages s @ [HumanMessage prompt],
                input_profile_data = profile_summary s\<rparr>"
    and "SupervisorAgent_call llm (initial_state (checkpoint s) inp) b = (Inr u, b1)"
    and "next_upd u = Some name"
    and "name \<noteq> ''__end__''"
    and "map_of (nodes llm) name = Some builder"
    and "builder (apply_update u (initial_state (checkpoint s) inp)) b1 = (Inl e, b2)"
  shows "chat_turn llm prompt s b =
       ((Some e, s\<lparr>session_messages := session_messages s @ [HumanMessage prompt],
                   checkpoint := Some (apply_update u (initial_state (checkpoint s) inp))\<rparr>), b2)
     \<and> messages (apply_update u (initial_state (checkpoint s) inp)) =
         session_messages s @ [HumanMessage prompt]
     \<and> (\<exists>cause. e = BackendError cause)"
proof -
  note lit = next_only(1) [OF assms(3,4)] and call = next_only(2) [OF assms(3,4)]
  from lit assms(5) have name: "name \<in> {''Profile Analyzer'', ''Job Fit Analyzer'',
      ''Content Enhancer'', ''Career Counselor''}"
    by (rule role_names)
  from assms(3) call
  have u: "u = \<lparr>messages_upd = None, profile_data_upd = None, next_upd = Some name\<rparr>"
    by simp
  have st: "apply_update u (initial_state (checkpoint s) inp) =
      (initial_state (checkpoint s) inp)\<lparr>next_agent := Some name\<rparr>"
    by (simp only: u apply_next_only)
  from assms(7) have fails:
    "builder ((initial_state (checkpoint s) inp)\<lparr>next_agent := Some name\<rparr>) b1 = (Inl e, b2)"
    by (simp only: st)
  from builder_of_role [OF name assms(6)] obtain p where p: "builder = agent_wrapper p llm"
    by (rule exE)
  from fails have "agent_wrapper p llm
      ((initial_state (checkpoint s) inp)\<lparr>next_agent := Some name\<rparr>) b1 = (Inl e, b2)"
    by (simp only: p)
  then have cause: "\<exists>cause. e = BackendError cause"
    by (rule agent_wrapper_raises)
  have msgs: "messages (apply_update u (initial_state (checkpoint s) inp)) =
      session_messages s @ [HumanMessage prompt]"
    by (simp only: st) (simp add: initial_state_def assms(2))
  from chat_turn_role_raises [OF assms(1,2) call name assms(6) fails] cause msgs
  show ?thesis
    by (simp only: st simp_thms)
qed

text \<open>
  The timeout scenario of the specification, by C3.
\<close>

theorem failed_builder_appends_nothing_witness:
  "chat_turn scripted ''How do I improve my headline?''
     \<lparr>session_messages = [], profile_summary = ''summary'', checkpoint = None\<rparr>
     [''Content Enhancer''] =
   ((Some (BackendError ''timeout''),
     \<lparr>session_messages = [HumanMessage ''How do I improve my headline?''],
      profile_summary = ''summary'',
      checkpoint = Some \<lparr>messages = [HumanMessage ''How do I improve my headline?''],
                          profile_data = ''summary'',
                          next_agent = Some ''Content Enhancer''\<rparr>\<rparr>), [])"
proof -
  let ?s = "\<lparr>session_messages = [], profile_summary = ''summary'', checkpoint = None\<rparr>"
  let ?inp = "\<lparr>input_messages = session_messages ?s @ [HumanMessage ''How do I improve my headline?''],
               input_profile_data = profile_summary ?s\<rparr>"
  let ?u = "\<lparr>messages_upd = None, profile_data_upd = None, next_upd = Some ''Content Enhancer''\<rparr>"
  have nonempty: "''How do I improve my headline?'' \<noteq> ''''"
    by simp
  have decision: "SupervisorAgent_call scripted (initial_state (checkpoint ?s) ?inp)
      [''Content Enhancer''] = (Inr ?u, [])"
    by (simp only: scripted_supervisor literal_content_enhancer if_True)
  have role: "next_upd ?u = Some ''Content Enhancer''"
    by simp
  have not_end: "''Content Enhancer'' \<noteq> ''__end__''"
    by simp
  have fails: "agent_wrapper content_enhancer_prompt scripted
      (apply_update ?u (initial_state (checkpoint ?s) ?inp)) [] = (Inl (BackendError ''timeout''), [])"
    by (rule scripted_agent_wrapper_timeout)
  from failed_builder_appends_nothing
    [OF nonempty refl decision role not_end node_content_enhancer fails]
  show ?thesis
    by (simp add: apply_update_def initial_state_def)
qed

section \<open>The end decision\<close>

text \<open>
  C4. When the supervisor's decision is \<^verbatim>\<open>__end__\<close>, the run reaches \<^verbatim>\<open>END\<close>
  having invoked the supervisor only: no role agent runs, the backend is left as the
  supervisor's call left it, the run raises nothing, its only chunk is the
  supervisor's, and the messages of the state are the messages given as input. In a
  turn of the chat, the session's messages after the turn are the prior ones with the
  user's message appended and nothing else.
\<close>

theorem end_decision_reaches_END_without_builder:
  assumes "SupervisorAgent_call llm (initial_state saved inp) b = (Inr u, b1)"
    and "next_upd u = Some ''__end__''"
  shows "visited (graph_stream llm saved inp b) = [''supervisor'']
     \<and> raised (graph_stream llm saved inp b) = None
     \<and> chunks (graph_stream llm saved inp b) = [(''supervisor'', u)]
     \<and> messages (final (graph_stream llm saved inp b)) = input_messages inp
     \<and> backend (graph_stream llm saved inp b) = b1
     \<and> (prompt \<noteq> '''' \<and> saved = checkpoint s
          \<and> inp = \<lparr>input_messages = session_messages s @ [HumanMessage prompt],
                   input_profile_data = profile_summary s\<rparr>
        \<longrightarrow> fst (chat_turn llm prompt s b) =
              (None, s\<lparr>session_messages := session_messages s @ [HumanMessage prompt],
                       checkpoint := Some (final (graph_stream llm saved inp b))\<rparr>))"
proof -
  note call = next_only(2) [OF assms]
  from assms(1) call
  have u: "u = \<lparr>messages_upd = None, profile_data_upd = None, next_upd = Some ''__end__''\<rparr>"
    by simp
  have run: "graph_stream llm saved inp b =
     \<lparr>chunks = [(''supervisor'', u)], visited = [''supervisor''], raised = None,
      final = (initial_state saved inp)\<lparr>next_agent := Some ''__end__''\<rparr>, backend = b1\<rparr>"
    by (simp only: graph_stream_end [OF call] u)
  have turn: "fst (chat_turn llm prompt s b) =
        (None, s\<lparr>session_messages := session_messages s @ [HumanMessage prompt],
                 checkpoint := Some (final (graph_stream llm saved inp b))\<rparr>)"
    if h: "prompt \<noteq> ''''" "saved = checkpoint s"
      "inp = \<lparr>input_messages = session_messages s @ [HumanMessage prompt],
              input_profile_data = profile_summary s\<rparr>"
  proof -
    from call h(2) have call': "SupervisorAgent_call llm (initial_state (checkpoint s) inp) b =
       (Inr \<lparr>messages_upd = None, profile_data_upd = None, next_upd = Some ''__end__''\<rparr>, b1)"
      by simp
    from run h(2) have "final (graph_stream llm (checkpoint s) inp b) =
        (initial_state (checkpoint s) inp)\<lparr>next_agent := Some ''__end__''\<rparr>"
      by simp
    then show ?thesis
      by (simp only: chat_turn_end [OF h(1) h(3) call'] h(2) fst_conv)
  qed
  from run turn show ?thesis
    by (simp add: initial_state_messages)
qed

text \<open>
  The goodbye scenario of the specification, by C4.
\<close>

theorem end_decision_reaches_END_without_builder_witness:
  "visited (graph_stream scripted None
      \<lparr>input_messages = [HumanMessage ''goodbye''], input_profile_data = ''summary''\<rparr>
      [''__end__'']) = [''supervisor'']
   \<and> raised (graph_stream scripted None
      \<lparr>input_messages = [HumanMessage ''goodbye''], input_profile_data = ''summary''\<rparr>
      [''__end__'']) = None
   \<and> messages (final (graph_stream scripted None
      \<lparr>input_messages = [HumanMessage ''goodbye''], input_profile_data = ''summary''\<rparr>
      [''__end__''])) = [HumanMessage ''goodbye'']
   \<and> session_messages (snd (fst (chat_turn scripted ''goodbye''
        \<lparr>session_messages = [], profile_summary = ''summary'', checkpoint = None\<rparr>
        [''__end__'']))) = [HumanMessage ''goodbye'']"
proof -
  let ?inp = "\<lparr>input_messages = [HumanMessage ''goodbye''], input_profile_data = ''summary''\<rparr>"
  let ?s = "\<lparr>session_messages = [], profile_summary = ''summary'', checkpoint = None\<rparr>"
  let ?u = "\<lparr>messages_upd = None, profile_data_upd = None, next_upd = Some ''__end__''\<rparr>"
  have decision: "SupervisorAgent_call scripted (initial_state None ?inp) [''__end__''] = (Inr ?u, [])"
    by (simp only: scripted_supervisor literal_end if_True)
  have is_end: "next_upd ?u = Some ''__end__''"
    by simp
  from end_decision_reaches_END_without_builder [OF decision is_end, of "''goodbye''" ?s]
  show ?thesis
    by simp
qed

section \<open>An empty or absent user message\<close>

text \<open>
  C5, as amended. If the history holds no user message, or its latest user message
  is empty, the supervisor still calls the backend, with the empty string as the
  current request, and its result is what that call gives: the backend's value when
  it is one of the five literals, a validation error when it is not, the backend's
  exception when it raises. The supervisor has no default classification of its own.
\<close>

theorem empty_request_passed_to_backend:
  assumes "(\<forall>m \<in> set (messages s). \<not> is_HumanMessage m)
     \<or> (\<exists>before after. messages s = before @ HumanMessage '''' # after
          \<and> (\<forall>m \<in> set after. \<not> is_HumanMessage m))"
  shows "SupervisorAgent_call llm s b =
     (case tool_call llm (supervisor_prompt, [(''current_request'', '''')]) b of
        (Inl cause, b') \<Rightarrow> (Inl (BackendError cause), b')
      | (Inr raw, b') \<Rightarrow>
          if raw \<in> set next_agent_literal
          then (Inr \<lparr>messages_upd = None, profile_data_upd = None, next_upd = Some raw\<rparr>, b')
          else (Inl (ValidationError raw), b'))"
proof -
  from assms have "get_current_user_message (messages s) = ''''"
  proof
    assume "\<forall>m \<in> set (messages s). \<not> is_HumanMessage m"
    then show ?thesis by (rule get_current_user_message_none)
  next
    assume "\<exists>before after. messages s = before @ HumanMessage '''' # after
          \<and> (\<forall>m \<in> set after. \<not> is_HumanMessage m)"
    then obtain before after where "messages s = before @ HumanMessage '''' # after"
      and "\<forall>m \<in> set after. \<not> is_HumanMessage m"
      by blast
    then show ?thesis by (simp only: get_current_user_message_decomp)
  qed
  then show ?thesis
    by (simp add: SupervisorAgent_call_def with_structured_output_def
             split: prod.splits sum.splits)
qed

text \<open>
  A history with no user message, by the amended C5.
\<close>

theorem empty_request_passed_to_backend_witness:
  "SupervisorAgent_call scripted
     \<lparr>messages = [AIMessage ''hello''], profile_data = ''summary'', next_agent = None\<rparr>
     [''__end__''] =
   (case tool_call scripted (supervisor_prompt, [(''current_request'', '''')]) [''__end__''] of
        (Inl cause, b') \<Rightarrow> (Inl (BackendError cause), b')
      | (Inr raw, b') \<Rightarrow>
          if raw \<in> set next_agent_literal
          then (Inr \<lparr>messages_upd = None, profile_data_upd = None, next_upd = Some raw\<rparr>, b')
          else (Inl (ValidationError raw), b'))"
proof -
  let ?s = "\<lparr>messages = [AIMessage ''hello''], profile_data = ''summary'', next_agent = None\<rparr>"
  have "(\<forall>m \<in> set (messages ?s). \<not> is_HumanMessage m)
     \<or> (\<exists>before after. messages ?s = before @ HumanMessage '''' # after
          \<and> (\<forall>m \<in> set after. \<not> is_HumanMessage m))"
    by simp
  then show ?thesis
    by (rule empty_request_passed_to_backend)
qed

text \<open>
  C5 as stated fails: on a history with no user message the supervisor returns the
  backend's \<^verbatim>\<open>Profile Analyzer\<close>, not \<^verbatim>\<open>__end__\<close>, and on an empty user message
  with a backend that raises, the supervisor raises.
\<close>

theorem empty_request_default_counterexample:
  "SupervisorAgent_call scripted
     \<lparr>messages = [], profile_data = ''summary'', next_agent = None\<rparr> [''Profile Analyzer''] =
     (Inr \<lparr>messages_upd = None, profile_data_upd = None, next_upd = Some ''Profile Analyzer''\<rparr>,
      [])
   \<and> SupervisorAgent_call scripted
     \<lparr>messages = [HumanMessage ''''], profile_data = ''summary'', next_agent = None\<rparr> [] =
     (Inl (BackendError ''timeout''), [])"
  by (simp add: scripted_supervisor scripted_supervisor_timeout next_agent_literal_def)

section \<open>A malformed classification\<close>

text \<open>
  C6, as amended. If the backend produces a value outside the five literals, the
  supervisor rejects it and raises the validation error to its caller at once: it has
  called the backend once and does not call it again.
\<close>

theorem malformed_output_raises_at_once:
  assumes "tool_call llm
       (supervisor_prompt, [(''current_request'', get_current_user_message (messages s))]) b
     = (Inr raw, b1)"
    and "raw \<notin> set next_agent_literal"
  shows "SupervisorAgent_call llm s b = (Inl (ValidationError raw), b1)"
  using assms
  by (simp add: SupervisorAgent_call_def with_structured_output_def)

text \<open>
  A malformed value followed by a conforming one, by the amended C6.
\<close>

theorem malformed_output_raises_at_once_witness:
  "SupervisorAgent_call scripted
     \<lparr>messages = [HumanMessage ''goodbye''], profile_data = ''summary'', next_agent = None\<rparr>
     [''end'', ''__end__''] =
     (Inl (ValidationError ''end''), [''__end__''])"
proof -
  let ?s = "\<lparr>messages = [HumanMessage ''goodbye''], profile_data = ''summary'', next_agent = None\<rparr>"
  have call: "tool_call scripted
       (supervisor_prompt, [(''current_request'', get_current_user_message (messages ?s))])
       [''end'', ''__end__''] = (Inr ''end'', [''__end__''])"
    by (simp add: scripted_def)
  have malformed: "''end'' \<notin> set next_agent_literal"
    by (simp add: next_agent_literal_def)
  show ?thesis
    by (rule malformed_output_raises_at_once [OF call malformed])
qed

text \<open>
  C6 as stated fails: with a backend that answers a malformed value first and
  \<^verbatim>\<open>__end__\<close> second, the supervisor raises on the first answer and leaves the
  second unread, where one retry would have returned \<^verbatim>\<open>__end__\<close>.
\<close>

theorem malformed_output_retry_counterexample:
  "SupervisorAgent_call scripted
     \<lparr>messages = [HumanMessage ''goodbye''], profile_data = ''summary'', next_agent = None\<rparr>
     [''banana'', ''__end__''] =
     (Inl (ValidationError ''banana''), [''__end__''])"
  by (simp add: scripted_supervisor next_agent_literal_def)

section \<open>The closed set of decisions and the conditional edges\<close>

text \<open>
  C7. The supervisor's output is one value of the five literals, and the conditional
  edge map is exhaustive over them and has nothing else: its keys are the five
  literals, each once; every literal selects one target, the role agent of that name
  or \<^verbatim>\<open>END\<close>, which is the successor of the supervisor; a value outside the
  literals has no entry, and the successor is a \<^verbatim>\<open>KeyError\<close>.
\<close>

theorem supervisor_output_and_edges_exhaustive:
  "(SupervisorAgent_call llm s b = (Inr u, b1) \<longrightarrow>
      (\<exists>decision. decision \<in> set next_agent_literal \<and> next_upd u = Some decision))
   \<and> map fst path_map = next_agent_literal
   \<and> distinct (map fst path_map)
   \<and> length path_map = 5
   \<and> (r \<in> set next_agent_literal \<longrightarrow>
        map_of path_map r = Some (if r = ''__end__'' then END else r)
        \<and> length (filter (\<lambda>entry. fst entry = r) path_map) = 1
        \<and> successor conditional_source (st\<lparr>next_agent := Some r\<rparr>) =
            Inr (if r = ''__end__'' then END else r))
   \<and> (r \<notin> set next_agent_literal \<longrightarrow>
        map_of path_map r = None
        \<and> successor conditional_source (st\<lparr>next_agent := Some r\<rparr>) = Inl (KeyError r))"
proof (intro conjI impI)
  assume "SupervisorAgent_call llm s b = (Inr u, b1)"
  from supervisor_update [OF this]
  show "\<exists>decision. decision \<in> set next_agent_literal \<and> next_upd u = Some decision"
    by auto
next
  show "map fst path_map = next_agent_literal" by (rule path_map_keys)
next
  show "distinct (map fst path_map)"
    by (simp only: path_map_keys next_agent_literal_distinct)
next
  show "length path_map = 5" by (simp add: path_map_def)
next
  assume "r \<in> set next_agent_literal"
  then show "map_of path_map r = Some (if r = ''__end__'' then END else r)"
    by (simp only: map_of_path_map if_True)
next
  assume "r \<in> set next_agent_literal"
  then have "r \<in> set (map fst path_map)" by (simp only: path_map_keys)
  moreover have "distinct (map fst path_map)"
    by (simp only: path_map_keys next_agent_literal_distinct)
  ultimately show "length (filter (\<lambda>entry. fst entry = r) path_map) = 1"
    by (rule filter_key_once [rotated])
next
  assume "r \<in> set next_agent_literal"
  then show "successor conditional_source (st\<lparr>next_agent := Some r\<rparr>) =
      Inr (if r = ''__end__'' then END else r)"
    by (simp add: conditional_source_def successor_supervisor END_def)
next
  assume "r \<notin> set next_agent_literal"
  then show "map_of path_map r = None"
    by (simp only: map_of_path_map if_False)
next
  assume "r \<notin> set next_agent_literal"
  then show "successor conditional_source (st\<lparr>next_agent := Some r\<rparr>) = Inl (KeyError r)"
    by (simp add: conditional_source_def successor_supervisor)
qed

text \<open>
  The decision of the headline scenario, by C7.
\<close>

theorem supervisor_output_and_edges_exhaustive_witness:
  "next_upd \<lparr>messages_upd = None, profile_data_upd = None,
             next_upd = Some ''Content Enhancer''\<rparr> = Some ''Content Enhancer''
   \<and> map_of path_map ''Content Enhancer'' = Some ''Content Enhancer''
   \<and> length (filter (\<lambda>entry. fst entry = ''Content Enhancer'') path_map) = 1
   \<and> successor conditional_source
        (\<lparr>messages = [HumanMessage ''How do I improve my headline?''],
          profile_data = ''summary'', next_agent = None\<rparr>
         \<lparr>next_agent := Some ''Content Enhancer''\<rparr>) = Inr ''Content Enhancer''
   \<and> map_of path_map ''banana'' = None
   \<and> successor conditional_source
        (\<lparr>messages = [HumanMessage ''How do I improve my headline?''],
          profile_data = ''summary'', next_agent = None\<rparr>
         \<lparr>next_agent := Some ''banana''\<rparr>) = Inl (KeyError ''banana'')"
proof -
  let ?s = "\<lparr>messages = [HumanMessage ''How do I improve my headline?''],
          profile_data = ''summary'', next_agent = None\<rparr>"
  let ?u = "\<lparr>messages_upd = None, profile_data_upd = None,
             next_upd = Some ''Content Enhancer''\<rparr>"
  have decision: "SupervisorAgent_call scripted ?s [''Content Enhancer''] = (Inr ?u, [])"
    by (simp only: scripted_supervisor literal_content_enhancer if_True)
  have malformed: "''banana'' \<notin> set next_agent_literal"
    by (simp add: next_agent_literal_def)
  have not_end: "''Content Enhancer'' \<noteq> ''__end__''"
    by simp
  from supervisor_output_and_edges_exhaustive
    [of scripted ?s "[''Content Enhancer'']" ?u "[]" "''Content Enhancer''" ?s]
    supervisor_output_and_edges_exhaustive
    [of scripted ?s "[''Content Enhancer'']" ?u "[]" "''banana''" ?s]
    decision literal_content_enhancer malformed not_end
  show ?thesis
    by simp
qed

section \<open>One supervisor call, at most one role agent\<close>

text \<open>
  C8. Within one turn the runner invokes the supervisor exactly once, first, and then
  at most one of the four role agents, after which the run is over: the nodes invoked
  by a run of the graph, in order, are the supervisor alone or the supervisor followed
  by one role agent (never two role agents, never the supervisor again, never a role
  agent before the supervisor), and the run never stops on the runner's step limit.
\<close>

theorem graph_stream_router_then_at_most_one_builder:
  "visited (graph_stream llm saved inp b) \<in>
     {[''supervisor''],
      [''supervisor'', ''Profile Analyzer''], [''supervisor'', ''Job Fit Analyzer''],
      [''supervisor'', ''Content Enhancer''], [''supervisor'', ''Career Counselor'']}
   \<and> raised (graph_stream llm saved inp b) \<noteq> Some GraphRecursionError"
proof -
  define s where "s = initial_state saved inp"
  obtain res b1 where sup: "SupervisorAgent_call llm s b = (res, b1)"
    by (cases "SupervisorAgent_call llm s b")
  show ?thesis
  proof (cases res)
    case (Inl e)
    with sup have call: "SupervisorAgent_call llm (initial_state saved inp) b = (Inl e, b1)"
      by (simp only: s_def)
    from supervisor_raises [OF call] have "e \<noteq> GraphRecursionError"
      by (elim disjE exE) simp_all
    then show ?thesis
      by (simp only: graph_stream_raise [OF call]) simp
  next
    case (Inr u)
    with sup have "SupervisorAgent_call llm s b = (Inr u, b1)" by simp
    from supervisor_update [OF this] obtain r where
      r: "r \<in> set next_agent_literal" and
      u: "u = \<lparr>messages_upd = None, profile_data_upd = None, next_upd = Some r\<rparr>"
      by blast
    from sup Inr u have call: "SupervisorAgent_call llm (initial_state saved inp) b =
        (Inr \<lparr>messages_upd = None, profile_data_upd = None, next_upd = Some r\<rparr>, b1)"
      by (simp only: s_def)
    show ?thesis
    proof (cases "r = ''__end__''")
      case True
      with call have "SupervisorAgent_call llm (initial_state saved inp) b =
        (Inr \<lparr>messages_upd = None, profile_data_upd = None, next_upd = Some ''__end__''\<rparr>, b1)"
        by simp
      then show ?thesis
        by (simp only: graph_stream_end) simp
    next
      case False
      with r have name: "r \<in> {''Profile Analyzer'', ''Job Fit Analyzer'',
          ''Content Enhancer'', ''Career Counselor''}"
        by (rule role_names)
      from role_node [OF name] obtain p where f: "map_of (nodes llm) r = Some (agent_wrapper p llm)"
        by blast
      obtain res2 b2 where
        w: "agent_wrapper p llm ((initial_state saved inp)\<lparr>next_agent := Some r\<rparr>) b1 = (res2, b2)"
        by (cases "agent_wrapper p llm ((initial_state saved inp)\<lparr>next_agent := Some r\<rparr>) b1")
      show ?thesis
      proof (cases res2)
        case (Inl e)
        with w have w': "agent_wrapper p llm ((initial_state saved inp)\<lparr>next_agent := Some r\<rparr>) b1
            = (Inl e, b2)" by simp
        from agent_wrapper_raises [OF w'] have "e \<noteq> GraphRecursionError"
          by (elim exE) simp
        with visited_shape [OF name] show ?thesis
          by (simp only: graph_stream_role_raise [OF call name f w']) simp
      next
        case (Inr v)
        with w have w': "agent_wrapper p llm ((initial_state saved inp)\<lparr>next_agent := Some r\<rparr>) b1
            = (Inr v, b2)" by simp
        from visited_shape [OF name] show ?thesis
          by (simp only: graph_stream_role_return [OF call name f w']) simp
      qed
    qed
  qed
qed

text \<open>
  The run of C8 on the headline scenario of the specification.
\<close>

theorem graph_stream_router_then_at_most_one_builder_witness:
  "visited (graph_stream scripted None
      \<lparr>input_messages = [HumanMessage ''How do I improve my headline?''],
       input_profile_data = ''Senior backend engineer''\<rparr>
      [''Content Enhancer'', ''Rewrite headline to: ...'']) \<in>
     {[''supervisor''],
      [''supervisor'', ''Profile Analyzer''], [''supervisor'', ''Job Fit Analyzer''],
      [''supervisor'', ''Content Enhancer''], [''supervisor'', ''Career Counselor'']}
   \<and> raised (graph_stream scripted None
      \<lparr>input_messages = [HumanMessage ''How do I improve my headline?''],
       input_profile_data = ''Senior backend engineer''\<rparr>
      [''Content Enhancer'', ''Rewrite headline to: ...'']) \<noteq> Some GraphRecursionError"
  by (rule graph_stream_router_then_at_most_one_builder)

section \<open>The profile data is read-only\<close>

text \<open>
  C9. Neither the supervisor nor a role agent modifies \<^verbatim>\<open>profile_data\<close>: the update
  of the supervisor holds the key \<^verbatim>\<open>next\<close> only, the update of each of the four role
  agents holds the key \<^verbatim>\<open>messages\<close> only, writing either to the state leaves
  \<^verbatim>\<open>profile_data\<close> as it was, and so a whole run ends with the profile data it was
  given, and a turn of the chat leaves the session's profile summary as it was.
\<close>

theorem profile_data_read_only:
  "(SupervisorAgent_call llm s b = (Inr u, b1) \<longrightarrow>
      messages_upd u = None \<and> profile_data_upd u = None \<and> next_upd u \<noteq> None
      \<and> profile_data (apply_update u s) = profile_data s)
   \<and> (builder \<in> {create_profile_analyzer llm, create_job_fit_analyzer llm,
                   create_content_enhancer llm, create_career_counselor llm}
       \<and> builder s b = (Inr v, b2) \<longrightarrow>
      messages_upd v \<noteq> None \<and> profile_data_upd v = None \<and> next_upd v = None
      \<and> profile_data (apply_update v s) = profile_data s)
   \<and> profile_data (final (graph_stream llm saved inp b)) = input_profile_data inp
   \<and> profile_summary (snd (fst (chat_turn llm prompt sess b))) = profile_summary sess"
proof -
  have sup: "SupervisorAgent_call llm s b = (Inr u, b1) \<longrightarrow>
      messages_upd u = None \<and> profile_data_upd u = None \<and> next_upd u \<noteq> None
      \<and> profile_data (apply_update u s) = profile_data s"
  proof
    assume "SupervisorAgent_call llm s b = (Inr u, b1)"
    from supervisor_update [OF this] obtain r where
      "u = \<lparr>messages_upd = None, profile_data_upd = None, next_upd = Some r\<rparr>"
      by blast
    then show "messages_upd u = None \<and> profile_data_upd u = None \<and> next_upd u \<noteq> None
        \<and> profile_data (apply_update u s) = profile_data s"
      by (simp add: apply_update_def)
  qed
  have role: "builder \<in> {create_profile_analyzer llm, create_job_fit_analyzer llm,
                   create_content_enhancer llm, create_career_counselor llm}
       \<and> builder s b = (Inr v, b2) \<longrightarrow>
      messages_upd v \<noteq> None \<and> profile_data_upd v = None \<and> next_upd v = None
      \<and> profile_data (apply_update v s) = profile_data s"
  proof
    assume h: "builder \<in> {create_profile_analyzer llm, create_job_fit_analyzer llm,
                   create_content_enhancer llm, create_career_counselor llm}
       \<and> builder s b = (Inr v, b2)"
    then have "\<exists>p. builder = agent_wrapper p llm"
      unfolding create_profile_analyzer_def create_job_fit_analyzer_def
        create_content_enhancer_def create_career_counselor_def
      by blast
    then obtain p where "builder = agent_wrapper p llm" ..
    with h have "agent_wrapper p llm s b = (Inr v, b2)" by simp
    from agent_wrapper_update [OF this] obtain response where
      "v = \<lparr>messages_upd = Some [response], profile_data_upd = None, next_upd = None\<rparr>"
      by blast
    then show "messages_upd v \<noteq> None \<and> profile_data_upd v = None \<and> next_upd v = None
        \<and> profile_data (apply_update v s) = profile_data s"
      by (simp add: apply_update_def)
  qed
  have run: "profile_data (final (graph_stream llm saved inp b)) = input_profile_data inp"
    by (simp add: graph_stream_def stream_from_profile_data initial_state_def)
  have turn: "profile_summary (snd (fst (chat_turn llm prompt sess b))) = profile_summary sess"
    by (rule chat_turn_profile_summary)
  show ?thesis
    by (rule conjI [OF sup conjI [OF role conjI [OF run turn]]])
qed

text \<open>
  The updates of the headline scenario, by C9.
\<close>

theorem profile_data_read_only_witness:
  "profile_data (apply_update
       \<lparr>messages_upd = None, profile_data_upd = None, next_upd = Some ''Content Enhancer''\<rparr>
       \<lparr>messages = [HumanMessage ''How do I improve my headline?''],
        profile_data = ''summary'', next_agent = None\<rparr>) = ''summary''
   \<and> profile_data (apply_update
       \<lparr>messages_upd = Some [AIMessage ''Rewrite headline to: ...''],
        profile_data_upd = None, next_upd = None\<rparr>
       \<lparr>messages = [HumanMessage ''How do I improve my headline?''],
        profile_data = ''summary'', next_agent = None\<rparr>) = ''summary''
   \<and> profile_data (final (graph_stream scripted None
        \<lparr>input_messages = [HumanMessage ''How do I improve my headline?''],
         input_profile_data = ''summary''\<rparr>
        [''Content Enhancer'', ''Rewrite headline to: ...''])) = ''summary''
   \<and> profile_summary (snd (fst (chat_turn scripted ''How do I improve my headline?''
        \<lparr>session_messages = [], profile_summary = ''summary'', checkpoint = None\<rparr>
        [''Content Enhancer'', ''Rewrite headline to: ...'']))) = ''summary''"
proof -
  let ?s = "\<lparr>messages = [HumanMessage ''How do I improve my headline?''],
        profile_data = ''summary'', next_agent = None\<rparr>"
  let ?u = "\<lparr>messages_upd = None, profile_data_upd = None,
             next_upd = Some ''Content Enhancer''\<rparr>"
  let ?v = "\<lparr>messages_upd = Some [AIMessage ''Rewrite headline to: ...''],
        profile_data_upd = None, next_upd = None\<rparr>"
  let ?inp = "\<lparr>input_messages = [HumanMessage ''How do I improve my headline?''],
         input_profile_data = ''summary''\<rparr>"
  let ?sess = "\<lparr>session_messages = [], profile_summary = ''summary'', checkpoint = None\<rparr>"
  have decision: "SupervisorAgent_call scripted ?s [''Content Enhancer''] = (Inr ?u, [])"
    by (simp only: scripted_supervisor literal_content_enhancer if_True)
  have reply: "create_content_enhancer scripted ?s [''Rewrite headline to: ...''] = (Inr ?v, [])"
    by (simp only: create_content_enhancer_def scripted_agent_wrapper)
  have builder: "create_content_enhancer scripted \<in>
      {create_profile_analyzer scripted, create_job_fit_analyzer scripted,
       create_content_enhancer scripted, create_career_counselor scripted}"
    by (simp only: insert_iff simp_thms)
  from profile_data_read_only
    [of scripted ?s "[''Content Enhancer'']" ?u "[]" "create_content_enhancer scripted" ?v "[]"
        None ?inp "''How do I improve my headline?''" ?sess]
    decision
  have one: "profile_data (apply_update ?u ?s) = profile_data ?s"
    by blast
  from profile_data_read_only
    [of scripted ?s "[''Rewrite headline to: ...'']" ?u "[]" "create_content_enhancer scripted"
        ?v "[]" None ?inp "''How do I improve my headline?''" ?sess]
    reply builder
  have two: "profile_data (apply_update ?v ?s) = profile_data ?s"
    by blast
  from profile_data_read_only
    [of scripted ?s "[''Content Enhancer'', ''Rewrite headline to: ...'']" ?u "[]"
        "create_content_enhancer scripted" ?v "[]" None ?inp
        "''How do I improve my headline?''" ?sess]
  have three: "profile_data (final (graph_stream scripted None ?inp
        [''Content Enhancer'', ''Rewrite headline to: ...''])) = input_profile_data ?inp
     \<and> profile_summary (snd (fst (chat_turn scripted ''How do I improve my headline?'' ?sess
        [''Content Enhancer'', ''Rewrite headline to: ...'']))) = profile_summary ?sess"
    by blast
  from one two three show ?thesis
    by simp
qed

section \<open>The latest user request\<close>

text \<open>
  C10. For every message list, \<open>get_current_user_message\<close> returns the content of the
  HumanMessage with the greatest index: if position \<open>i\<close> holds a HumanMessage and no
  later position does (whatever follows it, and whatever roles precede it, consecutive
  or not), the result is the content at \<open>i\<close>; and if the list holds no HumanMessage at
  all, the result is the empty string.
\<close>

theorem get_current_user_message_latest:
  "(i < length msgs \<and> is_HumanMessage (msgs ! i) \<and>
    (\<forall>j. i < j \<and> j < length msgs \<longrightarrow> \<not> is_HumanMessage (msgs ! j))
      \<longrightarrow> get_current_user_message msgs = content (msgs ! i))
   \<and> ((\<forall>j < length msgs. \<not> is_HumanMessage (msgs ! j))
      \<longrightarrow> get_current_user_message msgs = '''')"
proof (intro conjI impI)
  assume h: "i < length msgs \<and> is_HumanMessage (msgs ! i) \<and>
    (\<forall>j. i < j \<and> j < length msgs \<longrightarrow> \<not> is_HumanMessage (msgs ! j))"
  define before where "before = take i msgs"
  define after where "after = drop (Suc i) msgs"
  from h have split: "msgs = before @ msgs ! i # after"
    by (simp add: before_def after_def id_take_nth_drop)
  from h obtain c where c: "msgs ! i = HumanMessage c"
    by (auto simp: is_HumanMessage_def)
  have "\<forall>m \<in> set after. \<not> is_HumanMessage m"
  proof
    fix m assume "m \<in> set after"
    then obtain k where k: "k < length after" "m = after ! k"
      by (auto simp: in_set_conv_nth)
    then have "Suc i + k < length msgs" and "m = msgs ! (Suc i + k)"
      by (simp_all add: after_def)
    with h show "\<not> is_HumanMessage m" by simp
  qed
  then have "get_current_user_message (before @ HumanMessage c # after) = c"
    by (rule get_current_user_message_decomp)
  with split c show "get_current_user_message msgs = content (msgs ! i)"
    by simp
next
  assume "\<forall>j < length msgs. \<not> is_HumanMessage (msgs ! j)"
  then have "\<forall>m \<in> set msgs. \<not> is_HumanMessage m"
    by (auto simp: in_set_conv_nth)
  then show "get_current_user_message msgs = ''''"
    by (rule get_current_user_message_none)
qed

text \<open>
  Consecutive user messages followed by assistant messages, and a history with no
  user message, by C10.
\<close>

theorem get_current_user_message_latest_witness:
  "get_current_user_message
     [HumanMessage ''old'', AIMessage ''a'', HumanMessage ''x'', HumanMessage ''new'',
      AIMessage ''b'', AIMessage ''c''] = ''new''
   \<and> get_current_user_message [AIMessage ''a'', SystemMessage ''s''] = ''''"
proof -
  let ?ms = "[HumanMessage ''old'', AIMessage ''a'', HumanMessage ''x'', HumanMessage ''new'',
      AIMessage ''b'', AIMessage ''c'']"
  let ?ns = "[AIMessage ''a'', SystemMessage ''s'']"
  have a: "(3::nat) < length ?ms \<and> is_HumanMessage (?ms ! 3) \<and>
    (\<forall>j. 3 < j \<and> j < length ?ms \<longrightarrow> \<not> is_HumanMessage (?ms ! j))"
  proof (intro conjI allI impI)
    fix j :: nat assume "3 < j \<and> j < length ?ms"
    then have "j = 4 \<or> j = 5" by auto
    then show "\<not> is_HumanMessage (?ms ! j)" by auto
  qed simp_all
  have b: "\<forall>j < length ?ns. \<not> is_HumanMessage (?ns ! j)"
  proof (intro allI impI)
    fix j :: nat assume "j < length ?ns"
    then have "j = 0 \<or> j = 1" by auto
    then show "\<not> is_HumanMessage (?ns ! j)" by auto
  qed
  from a get_current_user_message_latest [of 3 ?ms] have "get_current_user_message ?ms = content (?ms ! 3)"
    by blast
  moreover from b get_current_user_message_latest [of 0 ?ns] have "get_current_user_message ?ns = ''''"
    by blast
  ultimately show ?thesis by simp
qed

end
